theory Spec2Isabelle
  imports Main "HOL-Library.Sublist"
begin

section \<open>Values, contract calls and errors\<close>

text \<open>
  The client layer of Floor Markets talks to two collaborators: a wallet/RPC library
  (contract reads and writes) and a query-caching library. Both are outside the
  repository. The embedding makes every call to them an event of a trace, and every
  answer they give a value supplied by the environment, so that "no call was made" and
  "the call carried these arguments" are statements about the trace.

  A \<open>bigint\<close> is an \<open>int\<close>. An address (\<^verbatim>\<open>`0x${string}`\<close>) and a transaction hash are
  strings.
\<close>

type_synonym address = string

datatype abi = Floor_v1 | ERC20Issuance_v1

datatype arg = BigintArg int | AddressArg address

text \<open>The parameter object of \<open>readContract\<close> and \<open>writeContract\<close>.\<close>

record call =
  address :: address
  abi :: abi
  functionName :: string
  args :: "arg list"

text \<open>
  \<open>Error msg\<close> is \<^verbatim>\<open>new Error(msg)\<close>, raised by this layer. \<open>Thrown x\<close> is whatever a
  collaborator raised (a rejected read or write, a failed conversion); its payload is
  opaque to this layer.
\<close>

datatype error = Error string | Thrown string

datatype event =
    ReadContract call
  | WriteContract call
  | ConsoleLog string
  | ConsoleError string error

text \<open>
  The wagmi configuration as the code sees it. \<open>getAccount_address\<close> is
  \<^verbatim>\<open>getAccount(config).address\<close>. The code casts the result of each read to the
  type the ABI gives it (\<^verbatim>\<open>as bigint\<close>, \<^verbatim>\<open>as boolean\<close>, \<^verbatim>\<open>as `0x${string}`\<close>);
  the environment therefore answers a read through the field of the expected type.
  Every read and every write may be rejected. Within one mutation no request is issued
  twice, so an answer that depends on the request alone loses nothing.
\<close>

record Config =
  getAccount_address :: "address option"
  read_bigint :: "call \<Rightarrow> error + int"
  read_boolean :: "call \<Rightarrow> error + bool"
  read_address :: "call \<Rightarrow> error + address"
  write_hash :: "call \<Rightarrow> error + string"

text \<open>
  An asynchronous computation: the events it caused, in order, and either the error it
  was rejected with or its value.
\<close>

type_synonym 'a promise = "event list \<times> (error + 'a)"

definition resolve :: "'a \<Rightarrow> 'a promise" where
  "resolve v = ([], Inr v)"

definition throw :: "error \<Rightarrow> 'a promise" where
  "throw e = ([], Inl e)"

text \<open>\<open>await m f\<close>: run \<open>m\<close>; a rejection ends the computation, a value is handed to \<open>f\<close>.\<close>

definition await :: "'a promise \<Rightarrow> ('a \<Rightarrow> 'b promise) \<Rightarrow> 'b promise" where
  "await m f =
     (case m of
        (t, Inl e) \<Rightarrow> (t, Inl e)
      | (t, Inr v) \<Rightarrow> (case f v of (t', r) \<Rightarrow> (t @ t', r)))"

definition console_log :: "string \<Rightarrow> unit promise" where
  "console_log s = ([ConsoleLog s], Inr ())"

text \<open>\<^verbatim>\<open>try { m } catch (error) { console.error(label, error); throw error }\<close>\<close>

definition try_catch_rethrow :: "string \<Rightarrow> 'a promise \<Rightarrow> 'a promise" where
  "try_catch_rethrow label m =
     (case m of
        (t, Inl e) \<Rightarrow> (t @ [ConsoleError label e], Inl e)
      | (t, Inr v) \<Rightarrow> (t, Inr v))"

definition readContract_bigint :: "Config \<Rightarrow> call \<Rightarrow> int promise" where
  "readContract_bigint config c = ([ReadContract c], read_bigint config c)"

definition readContract_boolean :: "Config \<Rightarrow> call \<Rightarrow> bool promise" where
  "readContract_boolean config c = ([ReadContract c], read_boolean config c)"

definition readContract_address :: "Config \<Rightarrow> call \<Rightarrow> address promise" where
  "readContract_address config c = ([ReadContract c], read_address config c)"

definition writeContract :: "Config \<Rightarrow> call \<Rightarrow> string promise" where
  "writeContract config c = ([WriteContract c], write_hash config c)"

fun is_contract_call :: "event \<Rightarrow> bool" where
  "is_contract_call (ReadContract c) = True"
| "is_contract_call (WriteContract c) = True"
| "is_contract_call (ConsoleLog s) = False"
| "is_contract_call (ConsoleError l e) = False"

text \<open>The reads and writes of a trace, in order, without the console output.\<close>

definition contract_calls :: "event list \<Rightarrow> event list" where
  "contract_calls t = filter is_contract_call t"

fun is_write :: "event \<Rightarrow> bool" where
  "is_write (WriteContract c) = True"
| "is_write e = False"

definition writes :: "event list \<Rightarrow> event list" where
  "writes t = filter is_write t"

section \<open>Bigint arithmetic and rendering\<close>

text \<open>
  \<^verbatim>\<open>BigInt(n)\<close> of an integer-valued number is that integer. The number
  \<open>slippageBps\<close> is modelled as an \<open>int\<close>: the model covers integer-valued arguments
  for which the double-precision subtraction \<^verbatim>\<open>10000 - slippageBps\<close> is exact, which
  \<open>isSafeInteger\<close> below delimits. Fractional numbers, NaN and infinities are outside
  the model.
\<close>

definition BigInt :: "int \<Rightarrow> int" where
  "BigInt n = n"

definition MAX_SAFE_INTEGER :: int where
  "MAX_SAFE_INTEGER = 2 ^ 53 - 1"

definition isSafeInteger :: "int \<Rightarrow> bool" where
  "isSafeInteger n \<longleftrightarrow> - MAX_SAFE_INTEGER \<le> n \<and> n \<le> MAX_SAFE_INTEGER"

text \<open>
  The \<^verbatim>\<open>/\<close> of two bigints truncates toward zero; HOL's \<open>div\<close> on \<open>int\<close> rounds
  toward minus infinity. The divisor is the constant 10000 wherever the code divides.
\<close>

definition bigint_div :: "int \<Rightarrow> int \<Rightarrow> int" where
  "bigint_div a b = sgn a * sgn b * (\<bar>a\<bar> div \<bar>b\<bar>)"

text \<open>
  The slippage floor, the same expression in \<open>buy\<close> (market.ts line 210) and in
  \<open>sell\<close> (line 299):
  \<^verbatim>\<open>(expectedOut * BigInt(10000 - slippageBps)) / BigInt(10000)\<close>
\<close>

definition minAmountOut_with_slippage :: "int \<Rightarrow> int \<Rightarrow> int" where
  "minAmountOut_with_slippage expectedOut slippageBps =
     bigint_div (expectedOut * BigInt (10000 - slippageBps)) (BigInt 10000)"

text \<open>\<^verbatim>\<open>n.toString()\<close> of a bigint: its decimal digits, with a minus sign when negative.\<close>

definition digit_char :: "nat \<Rightarrow> char" where
  "digit_char d = ''0123456789'' ! d"

function digits :: "nat \<Rightarrow> string" where
  "digits n = (if n < 10 then [digit_char n] else digits (n div 10) @ [digit_char (n mod 10)])"
  by pat_completeness auto
termination
  by (relation "measure id") auto

declare digits.simps [simp del]

definition toString :: "int \<Rightarrow> string" where
  "toString n = (if n < 0 then CHR ''-'' # digits (nat (- n)) else digits (nat n))"

section \<open>The Market facade (market.ts)\<close>

text \<open>
  A \<open>Market\<close> holds one field, \<open>marketAddress\<close>; the operations take it as an
  argument. \<open>useConfig()\<close> is taken to return the configuration, which the model
  passes explicitly. The dynamic \<^verbatim>\<open>import('wagmi/actions')\<close> is taken to succeed.
\<close>

record TMarketMutationResult =
  hash :: string

definition default_slippageBps :: "int option \<Rightarrow> int" where
  "default_slippageBps s = (case s of None \<Rightarrow> 50 | Some b \<Rightarrow> b)"

definition approveFToken :: "Config \<Rightarrow> address \<Rightarrow> int \<Rightarrow> TMarketMutationResult promise" where
  "approveFToken config marketAddress amount =
     await (readContract_address config
              \<lparr>address = marketAddress, abi = Floor_v1,
               functionName = ''getIssuanceToken'', args = []\<rparr>) (\<lambda>fTokenAddress.
     await (console_log (''Approving fToken '' @ fTokenAddress @ '' for amount ''
              @ toString amount @ ''...'')) (\<lambda>_.
     await (writeContract config
              \<lparr>address = fTokenAddress, abi = ERC20Issuance_v1,
               functionName = ''approve'',
               args = [AddressArg marketAddress, BigintArg amount]\<rparr>) (\<lambda>hash.
     await (console_log ([CHR 0xE2, CHR 0x9C, CHR 0x85] @ '' fToken approval tx: '' @ hash))
       (\<lambda>_.
     resolve \<lparr>hash = hash\<rparr>))))"

definition getFTokenAllowance :: "Config \<Rightarrow> address \<Rightarrow> int promise" where
  "getFTokenAllowance config marketAddress =
     (case getAccount_address config of
        None \<Rightarrow> throw (Error ''Wallet not connected'')
      | Some account_address \<Rightarrow>
          await (readContract_address config
                   \<lparr>address = marketAddress, abi = Floor_v1,
                    functionName = ''getIssuanceToken'', args = []\<rparr>) (\<lambda>fTokenAddress.
          await (readContract_bigint config
                   \<lparr>address = fTokenAddress, abi = ERC20Issuance_v1,
                    functionName = ''allowance'',
                    args = [AddressArg account_address, AddressArg marketAddress]\<rparr>)
            (\<lambda>allowance.
          resolve allowance)))"

definition buy :: "Config \<Rightarrow> address \<Rightarrow> int \<Rightarrow> int option \<Rightarrow> TMarketMutationResult promise"
  where
  "buy config marketAddress depositAmount slippageBps_arg =
     (let slippageBps = default_slippageBps slippageBps_arg in
      try_catch_rethrow ''Buy error:''
       (case getAccount_address config of
          None \<Rightarrow>
            throw (Error ''Wallet not connected. Please connect your wallet to continue.'')
        | Some account_address \<Rightarrow>
            if depositAmount \<le> BigInt 0
            then throw (Error ''Invalid amount. Amount must be greater than 0.'')
            else
              await (readContract_bigint config
                       \<lparr>address = marketAddress, abi = Floor_v1,
                        functionName = ''calculatePurchaseReturn'',
                        args = [BigintArg depositAmount]\<rparr>) (\<lambda>expectedOut.
              await (writeContract config
                       \<lparr>address = marketAddress, abi = Floor_v1,
                        functionName = ''buy'',
                        args = [BigintArg depositAmount,
                                BigintArg (minAmountOut_with_slippage expectedOut slippageBps)]\<rparr>)
                (\<lambda>hash.
              resolve \<lparr>hash = hash\<rparr>))))"

definition insufficient_balance_message :: "int \<Rightarrow> int \<Rightarrow> string" where
  "insufficient_balance_message balance depositAmount =
     ''Insufficient fToken balance. You have '' @ toString balance
       @ '' but trying to sell '' @ toString depositAmount"

definition insufficient_allowance_message :: "int \<Rightarrow> int \<Rightarrow> address \<Rightarrow> string" where
  "insufficient_allowance_message depositAmount allowance fTokenAddress =
     ''Insufficient fToken allowance. Please approve the Floor contract to spend your fTokens first.''
       @ [CHR 0x0A, CHR 0x0A] @ ''Required: '' @ toString depositAmount
       @ [CHR 0x0A] @ ''Current: '' @ toString allowance
       @ [CHR 0x0A, CHR 0x0A] @ ''Approve fToken at: '' @ fTokenAddress"

definition sell :: "Config \<Rightarrow> address \<Rightarrow> int \<Rightarrow> int option \<Rightarrow> TMarketMutationResult promise"
  where
  "sell config marketAddress depositAmount slippageBps_arg =
     (let slippageBps = default_slippageBps slippageBps_arg in
      try_catch_rethrow ''Sell error:''
       (case getAccount_address config of
          None \<Rightarrow>
            throw (Error ''Wallet not connected. Please connect your wallet to continue.'')
        | Some account_address \<Rightarrow>
            if depositAmount \<le> BigInt 0
            then throw (Error ''Invalid amount. Amount must be greater than 0.'')
            else
              await (readContract_boolean config
                       \<lparr>address = marketAddress, abi = Floor_v1,
                        functionName = ''isSellOpen'', args = []\<rparr>) (\<lambda>isSellOpen.
              if \<not> isSellOpen
              then throw (Error
                ''Selling is not enabled on this market. Contact admin to enable selling.'')
              else
              await (readContract_address config
                       \<lparr>address = marketAddress, abi = Floor_v1,
                        functionName = ''getIssuanceToken'', args = []\<rparr>) (\<lambda>fTokenAddress.
              await (readContract_bigint config
                       \<lparr>address = fTokenAddress, abi = ERC20Issuance_v1,
                        functionName = ''balanceOf'',
                        args = [AddressArg account_address]\<rparr>) (\<lambda>balance.
              if balance < depositAmount
              then throw (Error (insufficient_balance_message balance depositAmount))
              else
              await (readContract_bigint config
                       \<lparr>address = fTokenAddress, abi = ERC20Issuance_v1,
                        functionName = ''allowance'',
                        args = [AddressArg account_address, AddressArg marketAddress]\<rparr>)
                (\<lambda>allowance.
              if allowance < depositAmount
              then throw (Error
                (insufficient_allowance_message depositAmount allowance fTokenAddress))
              else
              await (readContract_bigint config
                       \<lparr>address = marketAddress, abi = Floor_v1,
                        functionName = ''calculateSaleReturn'',
                        args = [BigintArg depositAmount]\<rparr>) (\<lambda>expectedOut.
              await (writeContract config
                       \<lparr>address = marketAddress, abi = Floor_v1,
                        functionName = ''sell'',
                        args = [BigintArg depositAmount,
                                BigintArg (minAmountOut_with_slippage expectedOut slippageBps)]\<rparr>)
                (\<lambda>hash.
              resolve \<lparr>hash = hash\<rparr>))))))))"

definition approve :: "Config \<Rightarrow> address \<Rightarrow> int \<Rightarrow> TMarketMutationResult promise" where
  "approve config marketAddress amount =
     try_catch_rethrow ''Approve error:''
       (case getAccount_address config of
          None \<Rightarrow>
            throw (Error ''Wallet not connected. Please connect your wallet to continue.'')
        | Some account_address \<Rightarrow>
            if amount \<le> BigInt 0
            then throw (Error ''Invalid approval amount. Amount must be greater than 0.'')
            else
              await (readContract_address config
                       \<lparr>address = marketAddress, abi = Floor_v1,
                        functionName = ''getIssuanceToken'', args = []\<rparr>) (\<lambda>fTokenAddress.
              await (console_log (''Approving fToken '' @ fTokenAddress @ '' for amount ''
                       @ toString amount @ ''...'')) (\<lambda>_.
              await (writeContract config
                       \<lparr>address = fTokenAddress, abi = ERC20Issuance_v1,
                        functionName = ''approve'',
                        args = [AddressArg marketAddress, BigintArg amount]\<rparr>) (\<lambda>hash.
              await (console_log
                       ([CHR 0xE2, CHR 0x9C, CHR 0x85] @ '' fToken approval tx: '' @ hash))
                (\<lambda>_.
              resolve \<lparr>hash = hash\<rparr>)))))"


text \<open>
  The requests the mutations issue, named for use in the statements below. Each is the
  parameter object written out in the operation that issues it.
\<close>

definition calculatePurchaseReturn_request :: "address \<Rightarrow> int \<Rightarrow> call" where
  "calculatePurchaseReturn_request marketAddress amount =
     \<lparr>address = marketAddress, abi = Floor_v1, functionName = ''calculatePurchaseReturn'',
      args = [BigintArg amount]\<rparr>"

definition calculateSaleReturn_request :: "address \<Rightarrow> int \<Rightarrow> call" where
  "calculateSaleReturn_request marketAddress amount =
     \<lparr>address = marketAddress, abi = Floor_v1, functionName = ''calculateSaleReturn'',
      args = [BigintArg amount]\<rparr>"

definition isSellOpen_request :: "address \<Rightarrow> call" where
  "isSellOpen_request marketAddress =
     \<lparr>address = marketAddress, abi = Floor_v1, functionName = ''isSellOpen'', args = []\<rparr>"

definition getIssuanceToken_request :: "address \<Rightarrow> call" where
  "getIssuanceToken_request marketAddress =
     \<lparr>address = marketAddress, abi = Floor_v1, functionName = ''getIssuanceToken'',
      args = []\<rparr>"

definition balanceOf_request :: "address \<Rightarrow> address \<Rightarrow> call" where
  "balanceOf_request fTokenAddress owner =
     \<lparr>address = fTokenAddress, abi = ERC20Issuance_v1, functionName = ''balanceOf'',
      args = [AddressArg owner]\<rparr>"

definition allowance_request :: "address \<Rightarrow> address \<Rightarrow> address \<Rightarrow> call" where
  "allowance_request fTokenAddress owner spender =
     \<lparr>address = fTokenAddress, abi = ERC20Issuance_v1, functionName = ''allowance'',
      args = [AddressArg owner, AddressArg spender]\<rparr>"

definition buy_request :: "address \<Rightarrow> int \<Rightarrow> int \<Rightarrow> call" where
  "buy_request marketAddress amount minOut =
     \<lparr>address = marketAddress, abi = Floor_v1, functionName = ''buy'',
      args = [BigintArg amount, BigintArg minOut]\<rparr>"

definition sell_request :: "address \<Rightarrow> int \<Rightarrow> int \<Rightarrow> call" where
  "sell_request marketAddress amount minOut =
     \<lparr>address = marketAddress, abi = Floor_v1, functionName = ''sell'',
      args = [BigintArg amount, BigintArg minOut]\<rparr>"

definition approve_request :: "address \<Rightarrow> address \<Rightarrow> int \<Rightarrow> call" where
  "approve_request fTokenAddress spender amount =
     \<lparr>address = fTokenAddress, abi = ERC20Issuance_v1, functionName = ''approve'',
      args = [AddressArg spender, BigintArg amount]\<rparr>"

text \<open>Whether a trace holds a read or a write of the contract function \<open>fn\<close>.\<close>

fun calls_function :: "string \<Rightarrow> event \<Rightarrow> bool" where
  "calls_function fn (ReadContract c) = (functionName c = fn)"
| "calls_function fn (WriteContract c) = (functionName c = fn)"
| "calls_function fn (ConsoleLog s) = False"
| "calls_function fn (ConsoleError l e) = False"

definition called :: "string \<Rightarrow> event list \<Rightarrow> bool" where
  "called fn t = list_ex (calls_function fn) t"

section \<open>The trade executor (trade.ts)\<close>

text \<open>
  \<open>BuyTradeParams\<close> and \<open>SellTradeParams\<close> share three fields and differ in the name
  of the amount. \<open>TradeResult\<close> is a hash and a direction.
\<close>

record TradeParams =
  floorAssetAddress :: address
  minAmountOut :: string
  decimals :: int

record BuyTradeParams = TradeParams +
  depositAmount :: string

record SellTradeParams = TradeParams +
  sellAmount :: string

datatype direction = Buy | Sell

record TradeResult = TMarketMutationResult +
  direction :: direction

text \<open>
  The parameter object of \<open>walletClient.writeContract\<close>: a contract call together with
  the chain and the account of the wallet client.
\<close>

record wallet_call = call +
  call_chain :: "string option"
  call_account :: address

text \<open>
  The viem wallet client as the executor sees it: its account (absent when no account
  is active), its chain, and the answer of its \<open>writeContract\<close> to a request.
\<close>

record WalletClient =
  account :: "address option"
  chain :: "string option"
  client_writeContract :: "wallet_call \<Rightarrow> error + string"

text \<open>
  A call of the executor yields the requests it submitted, in order, and its outcome.
  \<open>parseUnits\<close> belongs to the viem library; the executor takes it as a parameter. It
  maps a decimal string and a number of decimals to a fixed-point integer, or throws.
\<close>

definition executeBuyTrade ::
  "(string \<Rightarrow> int \<Rightarrow> error + int) \<Rightarrow> WalletClient \<Rightarrow> BuyTradeParams
     \<Rightarrow> wallet_call list \<times> (error + TradeResult)" where
  "executeBuyTrade parseUnits walletClient params =
     (case account walletClient of
        None \<Rightarrow> ([], Inl (Error ''Wallet account is not available''))
      | Some active \<Rightarrow>
          (case parseUnits (depositAmount params) (decimals params) of
             Inl e \<Rightarrow> ([], Inl e)
           | Inr depositAmountWei \<Rightarrow>
          (case parseUnits (minAmountOut params) (decimals params) of
             Inl e \<Rightarrow> ([], Inl e)
           | Inr minAmountOutWei \<Rightarrow>
          (let request =
                 \<lparr>address = floorAssetAddress params, abi = Floor_v1,
                  functionName = ''buy'',
                  args = [BigintArg depositAmountWei, BigintArg minAmountOutWei],
                  call_chain = chain walletClient, call_account = active\<rparr>
           in case client_writeContract walletClient request of
                Inl e \<Rightarrow> ([request], Inl e)
              | Inr h \<Rightarrow> ([request], Inr \<lparr>hash = h, direction = Buy\<rparr>)))))"

definition executeSellTrade ::
  "(string \<Rightarrow> int \<Rightarrow> error + int) \<Rightarrow> WalletClient \<Rightarrow> SellTradeParams
     \<Rightarrow> wallet_call list \<times> (error + TradeResult)" where
  "executeSellTrade parseUnits walletClient params =
     (case account walletClient of
        None \<Rightarrow> ([], Inl (Error ''Wallet account is not available''))
      | Some active \<Rightarrow>
          (case parseUnits (sellAmount params) (decimals params) of
             Inl e \<Rightarrow> ([], Inl e)
           | Inr sellAmountWei \<Rightarrow>
          (case parseUnits (minAmountOut params) (decimals params) of
             Inl e \<Rightarrow> ([], Inl e)
           | Inr minAmountOutWei \<Rightarrow>
          (let request =
                 \<lparr>address = floorAssetAddress params, abi = Floor_v1,
                  functionName = ''sell'',
                  args = [BigintArg sellAmountWei, BigintArg minAmountOutWei],
                  call_chain = chain walletClient, call_account = active\<rparr>
           in case client_writeContract walletClient request of
                Inl e \<Rightarrow> ([request], Inl e)
              | Inr h \<Rightarrow> ([request], Inr \<lparr>hash = h, direction = Sell\<rparr>)))))"


section \<open>The data-fetch hooks (hooks/markets.ts, trades.ts, users.ts, platform metrics)\<close>

text \<open>
  An identifying parameter has the type \<^verbatim>\<open>string | null | undefined\<close>.
\<close>

datatype id = IdUndefined | IdNull | IdString string

text \<open>\<^verbatim>\<open>Boolean(id)\<close>: only a non-empty string is truthy.\<close>

fun Boolean :: "id \<Rightarrow> bool" where
  "Boolean IdUndefined = False"
| "Boolean IdNull = False"
| "Boolean (IdString s) = (s \<noteq> [])"

text \<open>
  The call a query function makes when the library invokes it:
  \<^verbatim>\<open>fetchMarkets\<close>, \<^verbatim>\<open>() => fetchMarketById(marketId!)\<close>, and so on. The
  non-null assertion \<^verbatim>\<open>!\<close> is erased at run time, so the identifier is passed
  as it is.
\<close>

datatype fetch =
    fetchPlatformMetrics
  | fetchMarkets
  | fetchMarketById id
  | fetchTradesByMarket id
  | fetchTradesByUser id
  | fetchAccountById id

text \<open>
  The values of the fields of a query-options object. \<open>'k\<close> is the type of cache
  keys, which the module \<open>query-keys\<close> builds.
\<close>

datatype 'k val =
    Undefined
  | Null
  | Bool bool
  | Number int
  | String string
  | QueryKey 'k
  | QueryFn fetch

text \<open>
  An options object maps field names to values. The hooks' optional parameter
  \<open>options\<close> is \<open>None\<close> when omitted.
\<close>

type_synonym 'k options = "string \<rightharpoonup> 'k val"

text \<open>\<^verbatim>\<open>options?.name\<close>\<close>

definition optional_field :: "'k options option \<Rightarrow> string \<Rightarrow> 'k val" where
  "optional_field options name =
     (case options of
        None \<Rightarrow> Undefined
      | Some obj \<Rightarrow> (case obj name of None \<Rightarrow> Undefined | Some v \<Rightarrow> v))"

text \<open>\<^verbatim>\<open>a ?? b\<close>\<close>

definition nullish :: "'k val \<Rightarrow> bool" where
  "nullish v = (v = Undefined \<or> v = Null)"

definition nullish_coalesce :: "'k val \<Rightarrow> 'k val \<Rightarrow> 'k val" where
  "nullish_coalesce a b = (if nullish a then b else a)"

text \<open>\<^verbatim>\<open>{ ...obj, ...options }\<close>: spreading \<open>undefined\<close> adds nothing.\<close>

definition spread :: "'k options \<Rightarrow> 'k options option \<Rightarrow> 'k options" where
  "spread obj options = (case options of None \<Rightarrow> obj | Some extra \<Rightarrow> obj ++ extra)"

text \<open>
  The module \<open>query-keys\<close> is not among the sources; its key builders are taken as
  parameters.
\<close>

record 'k query_keys =
  platformMetricsQueryKey :: 'k
  marketsQueryKey :: 'k
  marketQueryKey :: "id \<Rightarrow> 'k"
  marketTradesQueryKey :: "id \<Rightarrow> 'k"
  userTradesQueryKey :: "id \<Rightarrow> 'k"
  accountQueryKey :: "id \<Rightarrow> 'k"

text \<open>
  Each hook returns \<open>useQuery(obj)\<close>; the model of a hook is the object \<open>obj\<close> it hands
  to \<open>useQuery\<close>.
\<close>

definition usePlatformMetricsQuery :: "'k query_keys \<Rightarrow> 'k options option \<Rightarrow> 'k options"
  where
  "usePlatformMetricsQuery keys options =
     (let staleTime = nullish_coalesce (optional_field options ''staleTime'') (Number 120000)
      in (spread [''queryKey'' \<mapsto> QueryKey (platformMetricsQueryKey keys),
                  ''queryFn'' \<mapsto> QueryFn fetchPlatformMetrics] options)
         (''staleTime'' \<mapsto> staleTime))"

definition useMarketsQuery :: "'k query_keys \<Rightarrow> 'k options option \<Rightarrow> 'k options" where
  "useMarketsQuery keys options =
     (let staleTime = nullish_coalesce (optional_field options ''staleTime'') (Number 60000);
          gcTime = nullish_coalesce (optional_field options ''gcTime'') (Number (5 * 60000))
      in (spread [''queryKey'' \<mapsto> QueryKey (marketsQueryKey keys),
                  ''queryFn'' \<mapsto> QueryFn fetchMarkets] options)
         (''staleTime'' \<mapsto> staleTime, ''gcTime'' \<mapsto> gcTime))"

definition useMarketQuery :: "'k query_keys \<Rightarrow> id \<Rightarrow> 'k options option \<Rightarrow> 'k options"
  where
  "useMarketQuery keys marketId options =
     (let enabled = nullish_coalesce (optional_field options ''enabled'')
                      (Bool (Boolean marketId));
          staleTime = nullish_coalesce (optional_field options ''staleTime'') (Number 30000)
      in (spread [''queryKey'' \<mapsto> QueryKey (marketQueryKey keys marketId),
                  ''queryFn'' \<mapsto> QueryFn (fetchMarketById marketId)] options)
         (''enabled'' \<mapsto> enabled, ''staleTime'' \<mapsto> staleTime))"

definition useMarketTradesQuery ::
  "'k query_keys \<Rightarrow> id \<Rightarrow> 'k options option \<Rightarrow> 'k options" where
  "useMarketTradesQuery keys marketId options =
     (let enabled = nullish_coalesce (optional_field options ''enabled'')
                      (Bool (Boolean marketId))
      in (spread [''queryKey'' \<mapsto> QueryKey (marketTradesQueryKey keys marketId),
                  ''queryFn'' \<mapsto> QueryFn (fetchTradesByMarket marketId)] options)
         (''enabled'' \<mapsto> enabled))"

definition useUserTradesQuery ::
  "'k query_keys \<Rightarrow> id \<Rightarrow> 'k options option \<Rightarrow> 'k options" where
  "useUserTradesQuery keys userId options =
     (let enabled = nullish_coalesce (optional_field options ''enabled'')
                      (Bool (Boolean userId))
      in (spread [''queryKey'' \<mapsto> QueryKey (userTradesQueryKey keys userId),
                  ''queryFn'' \<mapsto> QueryFn (fetchTradesByUser userId)] options)
         (''enabled'' \<mapsto> enabled))"

definition useAccountQuery :: "'k query_keys \<Rightarrow> id \<Rightarrow> 'k options option \<Rightarrow> 'k options"
  where
  "useAccountQuery keys accountId options =
     (let enabled = nullish_coalesce (optional_field options ''enabled'')
                      (Bool (Boolean accountId))
      in (spread [''queryKey'' \<mapsto> QueryKey (accountQueryKey keys accountId),
                  ''queryFn'' \<mapsto> QueryFn (fetchAccountById accountId)] options)
         (''enabled'' \<mapsto> enabled))"

text \<open>
  Modelled from the spec: the query-caching library (\<open>useQuery\<close>) is an external
  collaborator. The spec says of it that a query whose \<open>enabled\<close> flag is false is
  disabled and never fetched, and that an enabled query is served from the cache or by
  invoking its fetch function. \<open>reports_disabled\<close> reads the flag of the object a hook
  hands over; \<open>fetch_calls\<close> lists the invocations of the fetch function for that
  object when nothing is cached: none for a disabled query, one otherwise.
\<close>

definition reports_disabled :: "'k options \<Rightarrow> bool" where
  "reports_disabled obj = (obj ''enabled'' = Some (Bool False))"

definition fetch_calls :: "'k options \<Rightarrow> fetch list" where
  "fetch_calls obj =
     (if reports_disabled obj then []
      else (case obj ''queryFn'' of Some (QueryFn f) \<Rightarrow> [f] | _ \<Rightarrow> []))"

text \<open>The value the caller supplied for a field, and whether the caller specified it.\<close>

definition specified :: "'k options option \<Rightarrow> string \<Rightarrow> bool" where
  "specified options name = (\<not> nullish (optional_field options name))"


section \<open>Example environments\<close>

text \<open>
  A connected wallet on a market that is open for selling: the issuance token is
  \<open>0xF70\<close>, every write is accepted, and the three bigint reads answer with the given
  balance, allowance and expected output.
\<close>

definition example_read_bigint :: "int \<Rightarrow> int \<Rightarrow> int \<Rightarrow> call \<Rightarrow> error + int" where
  "example_read_bigint balance allowance expectedOut c =
     (if functionName c = ''balanceOf'' then Inr balance
      else if functionName c = ''allowance'' then Inr allowance
      else Inr expectedOut)"

definition example_read_boolean :: "call \<Rightarrow> error + bool" where
  "example_read_boolean c = Inr True"

definition example_read_address :: "call \<Rightarrow> error + address" where
  "example_read_address c = Inr ''0xF70''"

definition example_write_hash :: "call \<Rightarrow> error + string" where
  "example_write_hash c = Inr ''0x7A''"

definition example_config :: "int \<Rightarrow> int \<Rightarrow> int \<Rightarrow> Config" where
  "example_config balance allowance expectedOut =
     \<lparr>getAccount_address = Some ''0xA11'',
      read_bigint = example_read_bigint balance allowance expectedOut,
      read_boolean = example_read_boolean,
      read_address = example_read_address,
      write_hash = example_write_hash\<rparr>"

text \<open>The same environment with no wallet connected.\<close>

definition disconnected_config :: Config where
  "disconnected_config = (example_config 0 0 0)\<lparr>getAccount_address := None\<rparr>"

text \<open>
  A conversion that knows two decimal strings and rejects every other, and a wallet
  client with an active account.
\<close>

definition example_parseUnits :: "string \<Rightarrow> int \<Rightarrow> error + int" where
  "example_parseUnits s d =
     (if s = ''1.5'' \<and> d = 2 then Inr 150
      else if s = ''3'' \<and> d = 2 then Inr 300
      else Inl (Thrown ''InvalidDecimalNumberError''))"

definition example_client_writeContract :: "wallet_call \<Rightarrow> error + string" where
  "example_client_writeContract c = Inr ''0x7B''"

definition example_walletClient :: WalletClient where
  "example_walletClient =
     \<lparr>account = Some ''0xA11'', chain = Some ''mainnet'',
      client_writeContract = example_client_writeContract\<rparr>"

definition example_buy_params :: BuyTradeParams where
  "example_buy_params =
     \<lparr>floorAssetAddress = ''0xF100'', minAmountOut = ''1.5'', decimals = 2,
      depositAmount = ''3''\<rparr>"

definition example_sell_params :: SellTradeParams where
  "example_sell_params =
     \<lparr>floorAssetAddress = ''0xF100'', minAmountOut = ''1.5'', decimals = 2,
      sellAmount = ''3''\<rparr>"

text \<open>Cache keys as strings.\<close>

definition example_id_key :: "string \<Rightarrow> id \<Rightarrow> string" where
  "example_id_key resource i =
     (case i of IdString s \<Rightarrow> resource @ ''/'' @ s | _ \<Rightarrow> resource)"

definition example_keys :: "string query_keys" where
  "example_keys =
     \<lparr>platformMetricsQueryKey = ''platformMetrics'',
      marketsQueryKey = ''markets'',
      marketQueryKey = example_id_key ''market'',
      marketTradesQueryKey = example_id_key ''marketTrades'',
      userTradesQueryKey = example_id_key ''userTrades'',
      accountQueryKey = example_id_key ''account''\<rparr>"

text \<open>
  Two option objects a caller may pass: one that forces \<open>enabled\<close>, one that sets the
  staleness window and a field the hooks do not compute.
\<close>

definition enabled_override :: "string options option" where
  "enabled_override = Some [''enabled'' \<mapsto> Bool True]"

definition example_options :: "string options option" where
  "example_options = Some [''staleTime'' \<mapsto> Number 5, ''retry'' \<mapsto> Number 3]"

section \<open>Shared lemmas\<close>

lemmas request_defs =
  calculatePurchaseReturn_request_def calculateSaleReturn_request_def isSellOpen_request_def
  getIssuanceToken_request_def balanceOf_request_def allowance_request_def
  buy_request_def sell_request_def approve_request_def

lemmas promise_defs =
  resolve_def throw_def await_def console_log_def try_catch_rethrow_def
  readContract_bigint_def readContract_boolean_def readContract_address_def
  writeContract_def

lemmas trace_defs = contract_calls_def writes_def called_def

lemmas example_defs =
  example_config_def example_read_bigint_def example_read_boolean_def
  example_read_address_def example_write_hash_def disconnected_config_def

lemma digits_small: "n < 10 \<Longrightarrow> digits n = [digit_char n]"
  by (simp add: digits.simps)

lemma digits_large: "10 \<le> n \<Longrightarrow> digits n = digits (n div 10) @ [digit_char (n mod 10)]"
  by (subst digits.simps) simp

lemmas toString_eval = toString_def digits_small digits_large digit_char_def

lemma bigint_div_nonneg: "0 \<le> a \<Longrightarrow> 0 < b \<Longrightarrow> bigint_div a b = a div b"
  by (cases "a = 0") (simp_all add: bigint_div_def)

lemma minAmountOut_floor:
  "0 \<le> expectedOut \<Longrightarrow> slippageBps \<le> 10000 \<Longrightarrow>
   minAmountOut_with_slippage expectedOut slippageBps
     = (expectedOut * (10000 - slippageBps)) div 10000"
  by (simp add: minAmountOut_with_slippage_def BigInt_def bigint_div_nonneg)

lemma buy_trace:
  assumes "getAccount_address config = Some owner" "0 < amount"
    and "read_bigint config (calculatePurchaseReturn_request marketAddress amount)
           = Inr expectedOut"
  shows "contract_calls (fst (buy config marketAddress amount slippageBps)) =
     [ReadContract (calculatePurchaseReturn_request marketAddress amount),
      WriteContract (buy_request marketAddress amount
         (minAmountOut_with_slippage expectedOut (default_slippageBps slippageBps)))]"
  using assms
  by (simp add: buy_def Let_def BigInt_def promise_defs request_defs contract_calls_def
      split: sum.splits)

lemma sell_trace:
  assumes "getAccount_address config = Some owner" "0 < amount"
    and "read_boolean config (isSellOpen_request marketAddress) = Inr True"
    and "read_address config (getIssuanceToken_request marketAddress) = Inr fTokenAddress"
    and "read_bigint config (balanceOf_request fTokenAddress owner) = Inr balance"
    and "amount \<le> balance"
    and "read_bigint config (allowance_request fTokenAddress owner marketAddress)
           = Inr allowance"
    and "amount \<le> allowance"
    and "read_bigint config (calculateSaleReturn_request marketAddress amount)
           = Inr expectedOut"
  shows "contract_calls (fst (sell config marketAddress amount slippageBps)) =
     [ReadContract (isSellOpen_request marketAddress),
      ReadContract (getIssuanceToken_request marketAddress),
      ReadContract (balanceOf_request fTokenAddress owner),
      ReadContract (allowance_request fTokenAddress owner marketAddress),
      ReadContract (calculateSaleReturn_request marketAddress amount),
      WriteContract (sell_request marketAddress amount
         (minAmountOut_with_slippage expectedOut (default_slippageBps slippageBps)))]"
  using assms
  by (simp add: sell_def Let_def BigInt_def promise_defs request_defs contract_calls_def
      split: sum.splits)

lemma writes_contract_calls: "writes (contract_calls t) = writes t"
proof (induction t)
  case Nil
  show ?case by (simp add: trace_defs)
next
  case (Cons e t)
  then show ?case by (cases e) (simp_all add: trace_defs)
qed

lemmas hook_defs =
  usePlatformMetricsQuery_def useMarketsQuery_def useMarketQuery_def
  useMarketTradesQuery_def useUserTradesQuery_def useAccountQuery_def

lemmas options_defs =
  optional_field_def nullish_def nullish_coalesce_def spread_def specified_def

lemmas library_defs = reports_disabled_def fetch_calls_def

lemmas executor_example_defs =
  example_parseUnits_def example_client_writeContract_def example_walletClient_def
  example_buy_params_def example_sell_params_def

lemmas hook_example_defs = example_keys_def example_id_key_def

lemma spread_supplied:
  "options = Some obj \<Longrightarrow> obj name = Some v \<Longrightarrow> spread base options name = Some v"
  by (simp add: spread_def map_add_find_right)

lemma specified_fallback:
  "nullish_coalesce (optional_field options name) dflt
     = (if specified options name then optional_field options name else dflt)"
  by (simp add: nullish_coalesce_def specified_def)

section \<open>The slippage floor\<close>

text \<open>
  Claim C1, as amended. In \<open>buy\<close> and in \<open>sell\<close>, when the mutation reaches the
  submission, for every expected output \<open>expectedOut \<ge> 0\<close> returned by the preview read
  and every integer \<open>slippageBps \<le> 10000\<close> (50 when omitted) for which
  \<open>10000 - slippageBps\<close> is a safe integer, the one transaction submitted carries the
  minimum-out \<open>floor(expectedOut * (10000 - slippageBps) / 10000)\<close>; for
  \<open>expectedOut = 2000\<close> and \<open>slippageBps = 50\<close> it is 1990.
\<close>

theorem minimum_out_is_floor_up_to_10000:
  assumes "getAccount_address config = Some owner" and "0 < amount"
    and "0 \<le> expectedOut"
    and "default_slippageBps slippageBps \<le> 10000"
    and "isSafeInteger (10000 - default_slippageBps slippageBps)"
  shows
    "(read_bigint config (calculatePurchaseReturn_request marketAddress amount)
        = Inr expectedOut \<longrightarrow>
      writes (fst (buy config marketAddress amount slippageBps)) =
        [WriteContract (buy_request marketAddress amount
           ((expectedOut * (10000 - default_slippageBps slippageBps)) div 10000))])
     \<and>
     (read_boolean config (isSellOpen_request marketAddress) = Inr True \<and>
      read_address config (getIssuanceToken_request marketAddress) = Inr fTokenAddress \<and>
      read_bigint config (balanceOf_request fTokenAddress owner) = Inr balance \<and>
      amount \<le> balance \<and>
      read_bigint config (allowance_request fTokenAddress owner marketAddress)
        = Inr allowance \<and>
      amount \<le> allowance \<and>
      read_bigint config (calculateSaleReturn_request marketAddress amount)
        = Inr expectedOut \<longrightarrow>
      writes (fst (sell config marketAddress amount slippageBps)) =
        [WriteContract (sell_request marketAddress amount
           ((expectedOut * (10000 - default_slippageBps slippageBps)) div 10000))])
     \<and> default_slippageBps None = 50
     \<and> minAmountOut_with_slippage 2000 50 = 1990"
proof -
  let ?m = "minAmountOut_with_slippage expectedOut (default_slippageBps slippageBps)"
  have floor: "?m = (expectedOut * (10000 - default_slippageBps slippageBps)) div 10000"
    using assms(3,4) by (rule minAmountOut_floor)
  have b: "writes (fst (buy config marketAddress amount slippageBps)) =
        [WriteContract (buy_request marketAddress amount ?m)]"
    if "read_bigint config (calculatePurchaseReturn_request marketAddress amount)
        = Inr expectedOut"
  proof -
    have "writes (contract_calls (fst (buy config marketAddress amount slippageBps))) =
        [WriteContract (buy_request marketAddress amount ?m)]"
      by (simp add: buy_trace [OF assms(1,2) that] writes_def)
    then show ?thesis by (simp only: writes_contract_calls)
  qed
  have s: "writes (fst (sell config marketAddress amount slippageBps)) =
        [WriteContract (sell_request marketAddress amount ?m)]"
    if "read_boolean config (isSellOpen_request marketAddress) = Inr True"
      "read_address config (getIssuanceToken_request marketAddress) = Inr fTokenAddress"
      "read_bigint config (balanceOf_request fTokenAddress owner) = Inr balance"
      "amount \<le> balance"
      "read_bigint config (allowance_request fTokenAddress owner marketAddress)
        = Inr allowance"
      "amount \<le> allowance"
      "read_bigint config (calculateSaleReturn_request marketAddress amount)
        = Inr expectedOut"
  proof -
    have "writes (contract_calls (fst (sell config marketAddress amount slippageBps))) =
        [WriteContract (sell_request marketAddress amount ?m)]"
      by (simp add: sell_trace [OF assms(1,2) that] writes_def)
    then show ?thesis by (simp only: writes_contract_calls)
  qed
  have d: "default_slippageBps None = 50" by (simp add: default_slippageBps_def)
  have e: "minAmountOut_with_slippage 2000 50 = 1990"
    by (simp add: minAmountOut_with_slippage_def BigInt_def bigint_div_def)
  from b s d e show ?thesis unfolding floor by blast
qed

text \<open>
  A deposit of 1000 with the default slippage and an expected output of 2000 submits the
  minimum-out 1990, in \<open>buy\<close> and in \<open>sell\<close>.
\<close>

theorem minimum_out_is_floor_up_to_10000_witness:
  "writes (fst (buy (example_config 5000 5000 2000) ''0xF100'' 1000 None)) =
     [WriteContract (buy_request ''0xF100'' 1000 1990)]
   \<and> writes (fst (sell (example_config 5000 5000 2000) ''0xF100'' 1000 (Some 50))) =
     [WriteContract (sell_request ''0xF100'' 1000 1990)]"
  using minimum_out_is_floor_up_to_10000
    [of "example_config 5000 5000 2000" "''0xA11''" 1000 2000 None "''0xF100''"
        "''0xF70''" 5000 5000]
    minimum_out_is_floor_up_to_10000
    [of "example_config 5000 5000 2000" "''0xA11''" 1000 2000 "Some 50" "''0xF100''"
        "''0xF70''" 5000 5000]
  by (simp add: example_defs request_defs default_slippageBps_def isSafeInteger_def
      MAX_SAFE_INTEGER_def)

text \<open>
  Claim C1 as stated fails above 10000 basis points: the bigint division truncates
  toward zero. With \<open>expectedOut = 1\<close> and \<open>slippageBps = 10001\<close> the product is
  \<open>-1\<close>; \<open>buy\<close> submits the minimum-out 0, while the floor of \<open>-1 / 10000\<close> is \<open>-1\<close>.
\<close>

theorem minimum_out_above_10000_counterexample:
  "writes (fst (buy (example_config 0 0 1) ''0xF100'' 1000 (Some 10001))) =
     [WriteContract (buy_request ''0xF100'' 1000 0)]
   \<and> (1 * (10000 - 10001)) div 10000 = (- 1 :: int)
   \<and> writes (fst (buy (example_config 0 0 1) ''0xF100'' 1000 (Some 10001))) \<noteq>
     [WriteContract (buy_request ''0xF100'' 1000 ((1 * (10000 - 10001)) div 10000))]"
  by (simp add: buy_def Let_def BigInt_def promise_defs request_defs trace_defs example_defs
      default_slippageBps_def minAmountOut_with_slippage_def bigint_div_def)

text \<open>
  Claim C7. For a fixed expected output \<open>expectedOut \<ge> 0\<close>, the minimum-out that \<open>buy\<close>
  and \<open>sell\<close> compute does not increase when the slippage tolerance grows within
  \<open>[0, 10000]\<close>: \<open>slippageBps1 \<le> slippageBps2\<close> gives
  \<open>minAmountOut(slippageBps2) \<le> minAmountOut(slippageBps1)\<close>. The lemmas \<open>buy_trace\<close>
  and \<open>sell_trace\<close> show that this value is the one both mutations submit.
\<close>

theorem minimum_out_antitone_in_slippage:
  assumes "0 \<le> expectedOut" and "0 \<le> slippageBps1" and "slippageBps1 \<le> slippageBps2"
    and "slippageBps2 \<le> 10000"
  shows "minAmountOut_with_slippage expectedOut slippageBps2
           \<le> minAmountOut_with_slippage expectedOut slippageBps1"
proof -
  have "expectedOut * (10000 - slippageBps2) \<le> expectedOut * (10000 - slippageBps1)"
    using assms by (intro mult_left_mono) auto
  then have "(expectedOut * (10000 - slippageBps2)) div 10000
               \<le> (expectedOut * (10000 - slippageBps1)) div 10000"
    by (rule zdiv_mono1) simp
  then show ?thesis using assms by (simp add: minAmountOut_floor)
qed

text \<open>An expected output of 2000 gives 1990 at 50 basis points and 1980 at 100.\<close>

theorem minimum_out_antitone_in_slippage_witness:
  "minAmountOut_with_slippage 2000 100 \<le> minAmountOut_with_slippage 2000 50
   \<and> minAmountOut_with_slippage 2000 50 = 1990
   \<and> minAmountOut_with_slippage 2000 100 = 1980"
  using minimum_out_antitone_in_slippage [of 2000 50 100]
  by (simp add: minAmountOut_with_slippage_def BigInt_def bigint_div_def)

text \<open>
  Claim C9. For every \<open>slippageBps\<close> in \<open>[0, 10000]\<close> and every \<open>expectedOut \<ge> 0\<close>,
  the minimum-out that \<open>buy\<close> and \<open>sell\<close> compute lies between 0 and \<open>expectedOut\<close>.
\<close>

theorem minimum_out_between_zero_and_expected:
  assumes "0 \<le> expectedOut" and "0 \<le> slippageBps" and "slippageBps \<le> 10000"
  shows "0 \<le> minAmountOut_with_slippage expectedOut slippageBps
         \<and> minAmountOut_with_slippage expectedOut slippageBps \<le> expectedOut"
proof -
  have nonneg: "0 \<le> expectedOut * (10000 - slippageBps)"
    using assms by simp
  have "expectedOut * (10000 - slippageBps) \<le> expectedOut * 10000"
    using assms by (intro mult_left_mono) auto
  then have "(expectedOut * (10000 - slippageBps)) div 10000 \<le> (expectedOut * 10000) div 10000"
    by (rule zdiv_mono1) simp
  then have upper: "(expectedOut * (10000 - slippageBps)) div 10000 \<le> expectedOut"
    by simp
  have lower: "0 \<le> (expectedOut * (10000 - slippageBps)) div 10000"
    using nonneg by (simp add: pos_imp_zdiv_nonneg_iff)
  from lower upper show ?thesis
    using assms by (simp add: minAmountOut_floor)
qed

text \<open>An expected output of 1999 gives 0 at 9999 basis points and 1999 at 0.\<close>

theorem minimum_out_between_zero_and_expected_witness:
  "0 \<le> minAmountOut_with_slippage 1999 9999
   \<and> minAmountOut_with_slippage 1999 9999 \<le> 1999
   \<and> minAmountOut_with_slippage 1999 9999 = 0
   \<and> minAmountOut_with_slippage 1999 0 = 1999"
  using minimum_out_between_zero_and_expected [of 1999 9999]
  by (simp add: minAmountOut_with_slippage_def BigInt_def bigint_div_def)

section \<open>Preconditions of the mutations\<close>

text \<open>
  Claim C4. Each of \<open>buy\<close>, \<open>sell\<close> and \<open>approve\<close>, when the amount is at most 0 or no
  wallet account is active, fails with a precondition error of this layer and issues
  no read and no write: the trace holds no contract call.
\<close>

theorem mutations_check_preconditions_first:
  assumes "getAccount_address config = None \<or> amount \<le> 0"
  shows
    "contract_calls (fst (buy config marketAddress amount slippageBps)) = []
     \<and> snd (buy config marketAddress amount slippageBps) =
         Inl (Error (if getAccount_address config = None
            then ''Wallet not connected. Please connect your wallet to continue.''
            else ''Invalid amount. Amount must be greater than 0.''))
     \<and> contract_calls (fst (sell config marketAddress amount slippageBps)) = []
     \<and> snd (sell config marketAddress amount slippageBps) =
         Inl (Error (if getAccount_address config = None
            then ''Wallet not connected. Please connect your wallet to continue.''
            else ''Invalid amount. Amount must be greater than 0.''))
     \<and> contract_calls (fst (approve config marketAddress amount)) = []
     \<and> snd (approve config marketAddress amount) =
         Inl (Error (if getAccount_address config = None
            then ''Wallet not connected. Please connect your wallet to continue.''
            else ''Invalid approval amount. Amount must be greater than 0.''))"
proof (cases "getAccount_address config")
  case None
  then show ?thesis
    by (simp add: buy_def sell_def approve_def Let_def promise_defs trace_defs)
next
  case (Some owner)
  with assms have "amount \<le> 0" by simp
  with Some show ?thesis
    by (simp add: buy_def sell_def approve_def Let_def BigInt_def promise_defs trace_defs)
qed

text \<open>
  With no wallet connected and an amount of 1000, and with a wallet connected and an
  amount of 0, none of the three mutations issues a contract call.
\<close>

theorem mutations_check_preconditions_first_witness:
  "contract_calls (fst (buy disconnected_config ''0xF100'' 1000 None)) = []
   \<and> contract_calls (fst (sell disconnected_config ''0xF100'' 1000 None)) = []
   \<and> contract_calls (fst (approve disconnected_config ''0xF100'' 1000)) = []
   \<and> snd (approve disconnected_config ''0xF100'' 1000) =
       Inl (Error ''Wallet not connected. Please connect your wallet to continue.'')
   \<and> contract_calls (fst (buy (example_config 5000 5000 2000) ''0xF100'' 0 None)) = []
   \<and> contract_calls (fst (sell (example_config 5000 5000 2000) ''0xF100'' 0 None)) = []
   \<and> contract_calls (fst (approve (example_config 5000 5000 2000) ''0xF100'' 0)) = []
   \<and> snd (buy (example_config 5000 5000 2000) ''0xF100'' 0 None) =
       Inl (Error ''Invalid amount. Amount must be greater than 0.'')"
  using mutations_check_preconditions_first [of disconnected_config 1000 "''0xF100''" None]
    mutations_check_preconditions_first
      [of "example_config 5000 5000 2000" 0 "''0xF100''" None]
  by (simp add: example_defs)

text \<open>
  Claim C2. In \<open>sell\<close>, whenever the balance read answers with a balance below the
  deposit amount, the mutation fails with the insufficient-balance error; the trace
  ends after the balance read, so the allowance is never read and no transaction is
  submitted.
\<close>

theorem sell_rejects_insufficient_balance:
  assumes "getAccount_address config = Some owner" and "0 < amount"
    and "read_boolean config (isSellOpen_request marketAddress) = Inr True"
    and "read_address config (getIssuanceToken_request marketAddress) = Inr fTokenAddress"
    and "read_bigint config (balanceOf_request fTokenAddress owner) = Inr balance"
    and "balance < amount"
  shows
    "snd (sell config marketAddress amount slippageBps)
       = Inl (Error (insufficient_balance_message balance amount))
     \<and> fst (sell config marketAddress amount slippageBps) =
       [ReadContract (isSellOpen_request marketAddress),
        ReadContract (getIssuanceToken_request marketAddress),
        ReadContract (balanceOf_request fTokenAddress owner),
        ConsoleError ''Sell error:'' (Error (insufficient_balance_message balance amount))]
     \<and> \<not> called ''allowance'' (fst (sell config marketAddress amount slippageBps))
     \<and> writes (fst (sell config marketAddress amount slippageBps)) = []"
  using assms
  by (simp add: sell_def Let_def BigInt_def promise_defs request_defs trace_defs)

text \<open>A balance of 500 against a deposit amount of 1000.\<close>

theorem sell_rejects_insufficient_balance_witness:
  "snd (sell (example_config 500 5000 2000) ''0xF100'' 1000 None)
     = Inl (Error ''Insufficient fToken balance. You have 500 but trying to sell 1000'')
   \<and> \<not> called ''allowance'' (fst (sell (example_config 500 5000 2000) ''0xF100'' 1000 None))
   \<and> writes (fst (sell (example_config 500 5000 2000) ''0xF100'' 1000 None)) = []"
  using sell_rejects_insufficient_balance
    [of "example_config 500 5000 2000" "''0xA11''" 1000 "''0xF100''" "''0xF70''" 500 None]
  by (simp add: example_defs request_defs insufficient_balance_message_def toString_eval
      trace_defs)

text \<open>
  Claim C3. In \<open>sell\<close>, whenever the balance covers the deposit amount and the allowance
  read answers with an allowance below it, the mutation fails with the
  insufficient-allowance error, whose message ends with the address of the issuance
  token to approve, and no transaction is submitted.
\<close>

theorem sell_rejects_insufficient_allowance:
  assumes "getAccount_address config = Some owner" and "0 < amount"
    and "read_boolean config (isSellOpen_request marketAddress) = Inr True"
    and "read_address config (getIssuanceToken_request marketAddress) = Inr fTokenAddress"
    and "read_bigint config (balanceOf_request fTokenAddress owner) = Inr balance"
    and "amount \<le> balance"
    and "read_bigint config (allowance_request fTokenAddress owner marketAddress)
           = Inr allowance"
    and "allowance < amount"
  shows
    "snd (sell config marketAddress amount slippageBps)
       = Inl (Error (insufficient_allowance_message amount allowance fTokenAddress))
     \<and> suffix (''Approve fToken at: '' @ fTokenAddress)
          (insufficient_allowance_message amount allowance fTokenAddress)
     \<and> contract_calls (fst (sell config marketAddress amount slippageBps)) =
       [ReadContract (isSellOpen_request marketAddress),
        ReadContract (getIssuanceToken_request marketAddress),
        ReadContract (balanceOf_request fTokenAddress owner),
        ReadContract (allowance_request fTokenAddress owner marketAddress)]
     \<and> writes (fst (sell config marketAddress amount slippageBps)) = []"
proof -
  have "suffix (''Approve fToken at: '' @ fTokenAddress)
          (insufficient_allowance_message amount allowance fTokenAddress)"
    unfolding insufficient_allowance_message_def suffix_def
    by (metis append.assoc)
  then show ?thesis
    using assms
    by (simp add: sell_def Let_def BigInt_def promise_defs request_defs trace_defs)
qed

text \<open>A balance of 5000 and an allowance of 999 against a deposit amount of 1000.\<close>

theorem sell_rejects_insufficient_allowance_witness:
  "snd (sell (example_config 5000 999 2000) ''0xF100'' 1000 None)
     = Inl (Error (insufficient_allowance_message 1000 999 ''0xF70''))
   \<and> insufficient_allowance_message 1000 999 ''0xF70'' =
       ''Insufficient fToken allowance. Please approve the Floor contract to spend your fTokens first.''
        @ [CHR 0x0A, CHR 0x0A] @ ''Required: 1000'' @ [CHR 0x0A] @ ''Current: 999''
        @ [CHR 0x0A, CHR 0x0A] @ ''Approve fToken at: 0xF70''
   \<and> writes (fst (sell (example_config 5000 999 2000) ''0xF100'' 1000 None)) = []"
  using sell_rejects_insufficient_allowance
    [of "example_config 5000 999 2000" "''0xA11''" 1000 "''0xF100''" "''0xF70''" 5000 999 None]
  by (simp add: example_defs request_defs insufficient_allowance_message_def toString_eval
      trace_defs)

text \<open>
  Claim C10. \<open>approveFToken\<close> validates nothing. Whatever the amount and whether or not
  a wallet account is active, it reads the issuance-token address and, when that read
  answers, submits the \<open>approve\<close> transaction; it fails only when the read or the write
  is rejected, with that rejection.
\<close>

theorem approveFToken_validates_nothing:
  "approveFToken config marketAddress amount =
     (case read_address config (getIssuanceToken_request marketAddress) of
        Inl e \<Rightarrow> ([ReadContract (getIssuanceToken_request marketAddress)], Inl e)
      | Inr fTokenAddress \<Rightarrow>
          (case write_hash config (approve_request fTokenAddress marketAddress amount) of
             Inl e \<Rightarrow>
               ([ReadContract (getIssuanceToken_request marketAddress),
                 ConsoleLog (''Approving fToken '' @ fTokenAddress @ '' for amount ''
                   @ toString amount @ ''...''),
                 WriteContract (approve_request fTokenAddress marketAddress amount)],
                Inl e)
           | Inr h \<Rightarrow>
               ([ReadContract (getIssuanceToken_request marketAddress),
                 ConsoleLog (''Approving fToken '' @ fTokenAddress @ '' for amount ''
                   @ toString amount @ ''...''),
                 WriteContract (approve_request fTokenAddress marketAddress amount),
                 ConsoleLog ([CHR 0xE2, CHR 0x9C, CHR 0x85] @ '' fToken approval tx: '' @ h)],
                Inr \<lparr>hash = h\<rparr>)))
   \<and> approveFToken (config\<lparr>getAccount_address := connected\<rparr>) marketAddress amount
       = approveFToken config marketAddress amount
   \<and> take 1 (fst (approveFToken config marketAddress amount))
       = [ReadContract (getIssuanceToken_request marketAddress)]
   \<and> (read_address config (getIssuanceToken_request marketAddress) = Inr fTokenAddress \<longrightarrow>
        writes (fst (approveFToken config marketAddress amount))
          = [WriteContract (approve_request fTokenAddress marketAddress amount)])
   \<and> (snd (approveFToken config marketAddress amount) = Inl e \<longrightarrow>
        read_address config (getIssuanceToken_request marketAddress) = Inl e
        \<or> (\<exists>token. read_address config (getIssuanceToken_request marketAddress) = Inr token
              \<and> write_hash config (approve_request token marketAddress amount) = Inl e))"
  by (simp add: approveFToken_def promise_defs request_defs trace_defs split: sum.splits)

text \<open>With no wallet connected and the amount \<open>-5\<close> the approval is submitted.\<close>

theorem approveFToken_validates_nothing_witness:
  "writes (fst (approveFToken disconnected_config ''0xF100'' (- 5)))
     = [WriteContract (approve_request ''0xF70'' ''0xF100'' (- 5))]
   \<and> snd (approveFToken disconnected_config ''0xF100'' (- 5)) = Inr \<lparr>hash = ''0x7A''\<rparr>
   \<and> getAccount_address disconnected_config = None"
  using approveFToken_validates_nothing
    [of disconnected_config "''0xF100''" "- 5" None "''0xF70''" "Thrown []"]
  by (simp add: example_defs request_defs trace_defs)

section \<open>The trade executor\<close>

text \<open>
  Claim C5. \<open>executeBuyTrade\<close> and \<open>executeSellTrade\<close> fail at once, with no request
  submitted, when the wallet client has no account. Otherwise, when \<open>parseUnits\<close>
  converts the amount string and the minimum-out string at the supplied decimals, they
  submit exactly one request, to \<open>buy\<close> or to \<open>sell\<close> of the market contract, with those
  two integers as arguments; the result carries the hash the submission answers with and
  the direction \<open>Buy\<close> or \<open>Sell\<close>, and a rejected submission is passed on as it is.
\<close>

theorem trade_executor_submits_converted_amounts:
  "(account walletClient = None \<longrightarrow>
      executeBuyTrade parseUnits walletClient buyParams
        = ([], Inl (Error ''Wallet account is not available''))
      \<and> executeSellTrade parseUnits walletClient sellParams
        = ([], Inl (Error ''Wallet account is not available'')))
   \<and> (account walletClient = Some active
        \<and> parseUnits (depositAmount buyParams) (decimals buyParams) = Inr amountWei
        \<and> parseUnits (minAmountOut buyParams) (decimals buyParams) = Inr minOutWei \<longrightarrow>
      fst (executeBuyTrade parseUnits walletClient buyParams) =
        [\<lparr>address = floorAssetAddress buyParams, abi = Floor_v1, functionName = ''buy'',
          args = [BigintArg amountWei, BigintArg minOutWei],
          call_chain = chain walletClient, call_account = active\<rparr>]
      \<and> snd (executeBuyTrade parseUnits walletClient buyParams) =
        (case client_writeContract walletClient
                \<lparr>address = floorAssetAddress buyParams, abi = Floor_v1,
                 functionName = ''buy'',
                 args = [BigintArg amountWei, BigintArg minOutWei],
                 call_chain = chain walletClient, call_account = active\<rparr> of
           Inl e \<Rightarrow> Inl e
         | Inr h \<Rightarrow> Inr \<lparr>hash = h, direction = Buy\<rparr>))
   \<and> (account walletClient = Some active
        \<and> parseUnits (sellAmount sellParams) (decimals sellParams) = Inr amountWei
        \<and> parseUnits (minAmountOut sellParams) (decimals sellParams) = Inr minOutWei \<longrightarrow>
      fst (executeSellTrade parseUnits walletClient sellParams) =
        [\<lparr>address = floorAssetAddress sellParams, abi = Floor_v1, functionName = ''sell'',
          args = [BigintArg amountWei, BigintArg minOutWei],
          call_chain = chain walletClient, call_account = active\<rparr>]
      \<and> snd (executeSellTrade parseUnits walletClient sellParams) =
        (case client_writeContract walletClient
                \<lparr>address = floorAssetAddress sellParams, abi = Floor_v1,
                 functionName = ''sell'',
                 args = [BigintArg amountWei, BigintArg minOutWei],
                 call_chain = chain walletClient, call_account = active\<rparr> of
           Inl e \<Rightarrow> Inl e
         | Inr h \<Rightarrow> Inr \<lparr>hash = h, direction = Sell\<rparr>))"
  by (simp add: executeBuyTrade_def executeSellTrade_def Let_def split: sum.splits)

text \<open>
  The strings \<open>3\<close> and \<open>1.5\<close> at two decimals are submitted as 300 and 150; without an
  account nothing is submitted.
\<close>

theorem trade_executor_submits_converted_amounts_witness:
  "executeBuyTrade example_parseUnits example_walletClient example_buy_params =
     ([\<lparr>address = ''0xF100'', abi = Floor_v1, functionName = ''buy'',
        args = [BigintArg 300, BigintArg 150],
        call_chain = Some ''mainnet'', call_account = ''0xA11''\<rparr>],
      Inr \<lparr>hash = ''0x7B'', direction = Buy\<rparr>)
   \<and> executeSellTrade example_parseUnits example_walletClient example_sell_params =
     ([\<lparr>address = ''0xF100'', abi = Floor_v1, functionName = ''sell'',
        args = [BigintArg 300, BigintArg 150],
        call_chain = Some ''mainnet'', call_account = ''0xA11''\<rparr>],
      Inr \<lparr>hash = ''0x7B'', direction = Sell\<rparr>)
   \<and> executeBuyTrade example_parseUnits (example_walletClient\<lparr>account := None\<rparr>)
        example_buy_params = ([], Inl (Error ''Wallet account is not available''))"
  using trade_executor_submits_converted_amounts
      [of example_walletClient example_parseUnits example_buy_params example_sell_params
          "''0xA11''" 300 150]
    trade_executor_submits_converted_amounts
      [of "example_walletClient\<lparr>account := None\<rparr>" example_parseUnits
          example_buy_params example_sell_params "''0xA11''" 300 150]
  by (simp add: executor_example_defs prod_eq_iff)

section \<open>The data-fetch hooks\<close>

text \<open>
  Claim C6, as amended. For each read hook with an identifying parameter
  (\<open>useMarketQuery\<close>, \<open>useMarketTradesQuery\<close>, \<open>useUserTradesQuery\<close>,
  \<open>useAccountQuery\<close>): when that parameter is null, undefined or the empty string and
  the caller's options do not specify \<open>enabled\<close>, the hook reports disabled and its
  fetch function is not invoked.
\<close>

theorem hooks_disabled_without_id_unless_overridden:
  assumes "i = IdUndefined \<or> i = IdNull \<or> i = IdString []"
    and "\<not> specified options ''enabled''"
  shows
    "reports_disabled (useMarketQuery keys i options)
     \<and> fetch_calls (useMarketQuery keys i options) = []
     \<and> reports_disabled (useMarketTradesQuery keys i options)
     \<and> fetch_calls (useMarketTradesQuery keys i options) = []
     \<and> reports_disabled (useUserTradesQuery keys i options)
     \<and> fetch_calls (useUserTradesQuery keys i options) = []
     \<and> reports_disabled (useAccountQuery keys i options)
     \<and> fetch_calls (useAccountQuery keys i options) = []"
proof -
  from assms(1) have falsy: "\<not> Boolean i" by auto
  from assms(2) have fallback:
    "nullish_coalesce (optional_field options ''enabled'') (Bool (Boolean i)) = Bool False"
    using falsy by (simp add: specified_def nullish_coalesce_def)
  show ?thesis
    by (simp add: hook_defs library_defs Let_def fallback)
qed

text \<open>\<open>useMarketQuery(undefined)\<close> is disabled and fetches nothing.\<close>

theorem hooks_disabled_without_id_unless_overridden_witness:
  "reports_disabled (useMarketQuery example_keys IdUndefined None)
   \<and> fetch_calls (useMarketQuery example_keys IdUndefined None) = []
   \<and> fetch_calls (useMarketTradesQuery example_keys IdNull example_options) = []
   \<and> fetch_calls (useUserTradesQuery example_keys (IdString []) None) = []
   \<and> fetch_calls (useAccountQuery example_keys IdNull example_options) = []"
  using hooks_disabled_without_id_unless_overridden [of IdUndefined None example_keys]
    hooks_disabled_without_id_unless_overridden [of IdNull example_options example_keys]
    hooks_disabled_without_id_unless_overridden [of "IdString []" None example_keys]
  by (simp add: options_defs example_options_def)

text \<open>
  Claim C6 as stated fails when the caller overrides the flag:
  \<open>useMarketQuery(undefined, { enabled: true })\<close> hands \<open>enabled = true\<close> to the
  library, because the hook evaluates \<^verbatim>\<open>options?.enabled ?? Boolean(marketId)\<close>; the
  query is not disabled and its fetch function is invoked with the undefined
  identifier.
\<close>

theorem hook_enabled_by_override_counterexample:
  "\<not> reports_disabled (useMarketQuery example_keys IdUndefined enabled_override)
   \<and> fetch_calls (useMarketQuery example_keys IdUndefined enabled_override)
       = [fetchMarketById IdUndefined]"
  by (simp add: hook_defs library_defs options_defs Let_def enabled_override_def)

text \<open>
  Claim C8. With no options \<open>useMarketsQuery\<close> applies \<open>staleTime = 60000\<close> and
  \<open>gcTime = 300000\<close>, and \<open>usePlatformMetricsQuery\<close> applies \<open>staleTime = 120000\<close>. In
  every hook, each computed field (\<open>enabled\<close>, \<open>staleTime\<close>, \<open>gcTime\<close>) holds the
  caller's value when the caller specifies one (a value other than undefined and null)
  and the fallback exactly otherwise, and every other field the caller supplies reaches
  the library with the caller's value.
\<close>

theorem hook_policy_defaults_and_overrides:
  "useMarketsQuery keys None ''staleTime'' = Some (Number 60000)
   \<and> useMarketsQuery keys None ''gcTime'' = Some (Number 300000)
   \<and> usePlatformMetricsQuery keys None ''staleTime'' = Some (Number 120000)
   \<and> usePlatformMetricsQuery keys options ''staleTime'' =
       Some (if specified options ''staleTime'' then optional_field options ''staleTime''
             else Number 120000)
   \<and> useMarketsQuery keys options ''staleTime'' =
       Some (if specified options ''staleTime'' then optional_field options ''staleTime''
             else Number 60000)
   \<and> useMarketsQuery keys options ''gcTime'' =
       Some (if specified options ''gcTime'' then optional_field options ''gcTime''
             else Number 300000)
   \<and> useMarketQuery keys i options ''enabled'' =
       Some (if specified options ''enabled'' then optional_field options ''enabled''
             else Bool (Boolean i))
   \<and> useMarketQuery keys i options ''staleTime'' =
       Some (if specified options ''staleTime'' then optional_field options ''staleTime''
             else Number 30000)
   \<and> useMarketTradesQuery keys i options ''enabled'' =
       Some (if specified options ''enabled'' then optional_field options ''enabled''
             else Bool (Boolean i))
   \<and> useUserTradesQuery keys i options ''enabled'' =
       Some (if specified options ''enabled'' then optional_field options ''enabled''
             else Bool (Boolean i))
   \<and> useAccountQuery keys i options ''enabled'' =
       Some (if specified options ''enabled'' then optional_field options ''enabled''
             else Bool (Boolean i))
   \<and> (options = Some obj \<and> obj name = Some v \<longrightarrow>
        (name \<noteq> ''staleTime'' \<longrightarrow>
           usePlatformMetricsQuery keys options name = Some v)
        \<and> (name \<noteq> ''staleTime'' \<and> name \<noteq> ''gcTime'' \<longrightarrow>
           useMarketsQuery keys options name = Some v)
        \<and> (name \<noteq> ''enabled'' \<and> name \<noteq> ''staleTime'' \<longrightarrow>
           useMarketQuery keys i options name = Some v)
        \<and> (name \<noteq> ''enabled'' \<longrightarrow>
           useMarketTradesQuery keys i options name = Some v)
        \<and> (name \<noteq> ''enabled'' \<longrightarrow>
           useUserTradesQuery keys i options name = Some v)
        \<and> (name \<noteq> ''enabled'' \<longrightarrow>
           useAccountQuery keys i options name = Some v))"
proof -
  have defaults:
    "useMarketsQuery keys None ''staleTime'' = Some (Number 60000)"
    "useMarketsQuery keys None ''gcTime'' = Some (Number 300000)"
    "usePlatformMetricsQuery keys None ''staleTime'' = Some (Number 120000)"
    by (simp_all add: hook_defs options_defs Let_def)
  have computed:
    "usePlatformMetricsQuery keys options ''staleTime'' =
       Some (if specified options ''staleTime'' then optional_field options ''staleTime''
             else Number 120000)"
    "useMarketsQuery keys options ''staleTime'' =
       Some (if specified options ''staleTime'' then optional_field options ''staleTime''
             else Number 60000)"
    "useMarketsQuery keys options ''gcTime'' =
       Some (if specified options ''gcTime'' then optional_field options ''gcTime''
             else Number 300000)"
    "useMarketQuery keys i options ''enabled'' =
       Some (if specified options ''enabled'' then optional_field options ''enabled''
             else Bool (Boolean i))"
    "useMarketQuery keys i options ''staleTime'' =
       Some (if specified options ''staleTime'' then optional_field options ''staleTime''
             else Number 30000)"
    "useMarketTradesQuery keys i options ''enabled'' =
       Some (if specified options ''enabled'' then optional_field options ''enabled''
             else Bool (Boolean i))"
    "useUserTradesQuery keys i options ''enabled'' =
       Some (if specified options ''enabled'' then optional_field options ''enabled''
             else Bool (Boolean i))"
    "useAccountQuery keys i options ''enabled'' =
       Some (if specified options ''enabled'' then optional_field options ''enabled''
             else Bool (Boolean i))"
    by (simp_all add: hook_defs Let_def specified_fallback)
  have passed:
    "name \<noteq> ''staleTime'' \<Longrightarrow> usePlatformMetricsQuery keys options name = Some v"
    "name \<noteq> ''staleTime'' \<and> name \<noteq> ''gcTime'' \<Longrightarrow>
       useMarketsQuery keys options name = Some v"
    "name \<noteq> ''enabled'' \<and> name \<noteq> ''staleTime'' \<Longrightarrow>
       useMarketQuery keys i options name = Some v"
    "name \<noteq> ''enabled'' \<Longrightarrow> useMarketTradesQuery keys i options name = Some v"
    "name \<noteq> ''enabled'' \<Longrightarrow> useUserTradesQuery keys i options name = Some v"
    "name \<noteq> ''enabled'' \<Longrightarrow> useAccountQuery keys i options name = Some v"
    if "options = Some obj" "obj name = Some v"
    using spread_supplied [OF that]
    by (simp_all add: hook_defs Let_def)
  from defaults computed passed show ?thesis by blast
qed

text \<open>
  A caller who sets \<open>staleTime = 5\<close> and \<open>retry = 3\<close> keeps both and still gets the
  fallback \<open>gcTime\<close>; a caller who sets only \<open>enabled\<close> keeps the fallback \<open>staleTime\<close>.
\<close>

theorem hook_policy_defaults_and_overrides_witness:
  "useMarketsQuery example_keys example_options ''staleTime'' = Some (Number 5)
   \<and> useMarketsQuery example_keys example_options ''gcTime'' = Some (Number 300000)
   \<and> useMarketsQuery example_keys example_options ''retry'' = Some (Number 3)
   \<and> useMarketQuery example_keys (IdString ''m1'') example_options ''enabled''
       = Some (Bool True)
   \<and> useMarketQuery example_keys (IdString ''m1'') example_options ''retry''
       = Some (Number 3)
   \<and> useMarketQuery example_keys (IdString ''m1'') enabled_override ''enabled''
       = Some (Bool True)
   \<and> useMarketQuery example_keys IdNull enabled_override ''staleTime''
       = Some (Number 30000)"
  using hook_policy_defaults_and_overrides
      [of example_keys example_options "IdString ''m1''"
          "[''staleTime'' \<mapsto> Number 5, ''retry'' \<mapsto> Number 3]" "''retry''" "Number 3"]
    hook_policy_defaults_and_overrides
      [of example_keys enabled_override "IdString ''m1''"
          "[''enabled'' \<mapsto> Bool True]" "''enabled''" "Bool True"]
    hook_policy_defaults_and_overrides
      [of example_keys enabled_override "IdNull"
          "[''enabled'' \<mapsto> Bool True]" "''enabled''" "Bool True"]
  by (simp add: options_defs example_options_def enabled_override_def)

end
